theory Spec2Isabelle
  imports Complex_Main "HOL-Library.Product_Lexorder"
begin

section \<open>Event coincidence of LST-1 and MAGIC: the embedding\<close>

text \<open>
  The development follows \<^verbatim>\<open>event_coincidence\<close> of
  \<^verbatim>\<open>lst1_magic_event_coincidence.py\<close>. Timestamps, time offsets and the window half
  width are the integer nanosecond arrays of the script; they are modelled as \<^typ>\<open>int\<close>.
  The script holds them in 64-bit integers: UNIX timestamps in nanoseconds are near
  \<open>2^61\<close> and the offsets and the window are microseconds, so no sum of the script leaves
  the 64-bit range and wrap-around is not modelled. The conversion into 64-bit integers
  itself is modelled, with its \<^verbatim>\<open>OverflowError\<close>.

  Means and weighted averages are 64-bit floating point in the script. They are modelled
  in \<^typ>\<open>rat\<close>: the operands are integers far below \<open>2^53\<close>, a floating point division
  is rounded to the nearest representable number, and the half integers at which
  \<^verbatim>\<open>np.round\<close> changes its result are representable, so rounding the exact quotient
  gives the integer the script gets.
\<close>

subsection \<open>Exceptions\<close>

datatype py_error =
    IndexError
  | ZeroDivisionError
  | OverflowError
  | ValueError
  | InvalidOperation
  | KeyError

subsection \<open>The grid of time offsets\<close>

text \<open>\<^verbatim>\<open>TIME_ACCURACY = 100 * u.ns\<close>, the step of the scan.\<close>

definition TIME_ACCURACY :: int where
  "TIME_ACCURACY = 100"

text \<open>
  \<^verbatim>\<open>np.arange(start, stop, step)\<close> for a positive step: \<open>ceil((stop - start) / step)\<close>
  values from \<open>start\<close>, none when \<open>stop \<le> start\<close>.
\<close>

definition arange :: "int \<Rightarrow> int \<Rightarrow> int \<Rightarrow> int list" where
  "arange start stop step =
     map (\<lambda>k. start + step * int k) [0..<nat ((stop - start + step - 1) div step)]"

definition time_offsets_of :: "int \<Rightarrow> int \<Rightarrow> int list" where
  "time_offsets_of offset_start offset_stop = arange offset_start offset_stop TIME_ACCURACY"

subsection \<open>Rounding and averages\<close>

text \<open>\<^verbatim>\<open>np.round\<close>: to the nearest integer, a tie to the even one.\<close>

definition np_round :: "rat \<Rightarrow> int" where
  "np_round x =
     (let f = \<lfloor>x\<rfloor>; d = x - of_int f in
      if d < 1 / 2 then f
      else if 1 / 2 < d then f + 1
      else if even f then f else f + 1)"

text \<open>\<^verbatim>\<open>.mean()\<close> of an integer array (the script calls it on a non-empty one).\<close>

definition mean :: "int list \<Rightarrow> rat" where
  "mean xs = of_int (sum_list xs) / of_nat (length xs)"

text \<open>
  \<^verbatim>\<open>np.average(a, weights=w)\<close>: the weights are summed first, and a zero sum raises
  \<^verbatim>\<open>ZeroDivisionError\<close> (also for empty arrays).
\<close>

definition np_average :: "int list \<Rightarrow> nat list \<Rightarrow> py_error + rat" where
  "np_average a weights =
     (let scl = sum_list weights in
      if scl = 0 then Inl ZeroDivisionError
      else Inr (of_int (sum_list (map (\<lambda>(x, wgt). x * int wgt) (zip a weights))) / of_nat scl))"

subsection \<open>The coincidence test\<close>

text \<open>
  The boolean matrix of lines 221 to 227 and 264 to 270: row \<open>i\<close> is the LST-1 event
  \<open>i\<close>, column \<open>j\<close> the MAGIC event \<open>j\<close>.
\<close>

definition coincidence_mask :: "int list \<Rightarrow> int list \<Rightarrow> int \<Rightarrow> int \<Rightarrow> bool list list" where
  "coincidence_mask timestamps_lst timestamps_magic time_offset window_half_width =
     map (\<lambda>t1.
        let time_lolim = t1 + time_offset - window_half_width;
            time_uplim = t1 + time_offset + window_half_width
        in map (\<lambda>t2. t2 \<ge> time_lolim \<and> t2 \<le> time_uplim) timestamps_magic)
      timestamps_lst"

text \<open>\<^verbatim>\<open>np.count_nonzero\<close> of a boolean matrix.\<close>

definition count_nonzero :: "bool list list \<Rightarrow> nat" where
  "count_nonzero cond = sum_list (map (\<lambda>row. length (filter id row)) cond)"

definition n_coincidence_at :: "int list \<Rightarrow> int list \<Rightarrow> int \<Rightarrow> int \<Rightarrow> nat" where
  "n_coincidence_at timestamps_lst timestamps_magic window_half_width time_offset =
     count_nonzero (coincidence_mask timestamps_lst timestamps_magic time_offset window_half_width)"

text \<open>The loop of lines 220 to 234: one count for each time offset, in order.\<close>

definition scan_offsets :: "int list \<Rightarrow> int list \<Rightarrow> int \<Rightarrow> int list \<Rightarrow> nat list" where
  "scan_offsets timestamps_lst timestamps_magic window_half_width time_offsets =
     map (n_coincidence_at timestamps_lst timestamps_magic window_half_width) time_offsets"

subsection \<open>The offset at the maximum and the average offset\<close>

text \<open>
  Line 244: \<^verbatim>\<open>time_offsets[n_coincidences == n_coincidences.max()].mean()\<close>.
\<close>

definition offsets_at_max :: "int list \<Rightarrow> nat list \<Rightarrow> int list" where
  "offsets_at_max time_offsets n_coincidences =
     map fst (filter (\<lambda>(off, n). n = Max (set n_coincidences)) (zip time_offsets n_coincidences))"

definition offset_at_max :: "int list \<Rightarrow> nat list \<Rightarrow> rat" where
  "offset_at_max time_offsets n_coincidences = mean (offsets_at_max time_offsets n_coincidences)"

text \<open>
  Lines 250 to 256: the offsets between the rounded limits, with their counts.
\<close>

definition average_region :: "int list \<Rightarrow> nat list \<Rightarrow> int \<Rightarrow> (int \<times> nat) list" where
  "average_region time_offsets n_coincidences window_half_width =
     (let at_max = offset_at_max time_offsets n_coincidences;
          offset_lolim = at_max - 2 * of_int window_half_width;
          offset_uplim = at_max + 2 * of_int window_half_width
      in filter (\<lambda>(off, n). off \<ge> np_round offset_lolim \<and> off \<le> np_round offset_uplim)
           (zip time_offsets n_coincidences))"

text \<open>Lines 258 and 259.\<close>

definition average_offset :: "int list \<Rightarrow> nat list \<Rightarrow> int \<Rightarrow> py_error + int" where
  "average_offset time_offsets n_coincidences window_half_width =
     (let region = average_region time_offsets n_coincidences window_half_width in
      case np_average (map fst region) (map snd region) of
        Inl e \<Rightarrow> Inl e
      | Inr avg \<Rightarrow> Inr (np_round avg))"

subsection \<open>One telescope combination\<close>

text \<open>
  Lines 188 to 194: the MAGIC events taken when LST-1 observed. \<^verbatim>\<open>timestamps_lst[0]\<close>
  and \<^verbatim>\<open>time_offsets[0]\<close> raise \<^verbatim>\<open>IndexError\<close> on an empty array.
\<close>

definition extract_mask :: "int list \<Rightarrow> int list \<Rightarrow> int \<Rightarrow> int list \<Rightarrow> py_error + bool list" where
  "extract_mask timestamps_lst time_offsets window_half_width timestamps_magic =
     (if timestamps_lst = [] \<or> time_offsets = [] then Inl IndexError
      else
        let time_lolim = hd timestamps_lst + hd time_offsets - window_half_width;
            time_uplim = last timestamps_lst + last time_offsets + window_half_width
        in Inr (map (\<lambda>t. t \<ge> time_lolim \<and> t \<le> time_uplim) timestamps_magic))"

text \<open>Boolean indexing, \<^verbatim>\<open>a[cond]\<close>.\<close>

definition select :: "'a list \<Rightarrow> bool list \<Rightarrow> 'a list" where
  "select xs cond = map fst (filter snd (zip xs cond))"

text \<open>\<^verbatim>\<open>np.where\<close> of a boolean matrix: the index pairs of the true cells, row by row.\<close>

definition np_where :: "bool list list \<Rightarrow> (nat \<times> nat) list" where
  "np_where cond =
     concat (map (\<lambda>(i, row). map (\<lambda>j. (i, j)) (filter (\<lambda>j. row ! j) [0..<length row]))
       (zip [0..<length cond] cond))"

text \<open>What the loop body leaves for one telescope.\<close>

record coincidence =
  n_events_magic :: nat
  kept_magic :: "bool list"
  n_coincidences :: "nat list"
  offset_max :: rat
  offset_avg :: int
  n_events_at_avg :: nat
  percentage :: rat
  indices :: "(nat \<times> nat) list"

datatype tel_result =
    No_events
  | No_coincidence
  | Coincident coincidence

text \<open>
  Lines 188 to 280 for one telescope: \<open>No_events\<close> and \<open>No_coincidence\<close> are the two
  \<^verbatim>\<open>continue\<close> statements.
\<close>

definition check_coincidence ::
    "int list \<Rightarrow> int list \<Rightarrow> int \<Rightarrow> int list \<Rightarrow> py_error + tel_result" where
  "check_coincidence timestamps_lst time_offsets window_half_width timestamps_magic_all =
     (case extract_mask timestamps_lst time_offsets window_half_width timestamps_magic_all of
        Inl e \<Rightarrow> Inl e
      | Inr kept \<Rightarrow>
          let n_magic = length (filter id kept) in
          if n_magic = 0 then Inr No_events
          else
            let timestamps_magic = select timestamps_magic_all kept;
                counts = scan_offsets timestamps_lst timestamps_magic window_half_width time_offsets
            in
            if \<not> (\<exists>n \<in> set counts. n \<noteq> 0) then Inr No_coincidence
            else
              case average_offset time_offsets counts window_half_width of
                Inl e \<Rightarrow> Inl e
              | Inr avg \<Rightarrow>
                  let cond = coincidence_mask timestamps_lst timestamps_magic avg window_half_width;
                      n_at_avg = count_nonzero cond
                  in Inr (Coincident
                       \<lparr> n_events_magic = n_magic,
                         kept_magic = kept,
                         n_coincidences = counts,
                         offset_max = offset_at_max time_offsets counts,
                         offset_avg = avg,
                         n_events_at_avg = n_at_avg,
                         percentage = 100 * of_nat n_at_avg / of_nat n_magic,
                         indices = np_where cond \<rparr>))"

subsection \<open>Decimal numbers and the timestamps\<close>

text \<open>
  The values of Python's \<^verbatim>\<open>decimal.Decimal\<close>: a finite number is a sign, a coefficient
  (never negative) and an exponent and stands for \<open>(-1)^sign * coefficient * 10^exponent\<close>.
\<close>

datatype decimal =
    Finite bool int int
  | Infinity bool
  | NaN
  | SNaN

definition is_digit :: "char \<Rightarrow> bool" where
  "is_digit c \<longleftrightarrow> c \<in> set ''0123456789''"

definition digit_val :: "char \<Rightarrow> int" where
  "digit_val c = of_char c - 48"

definition digits_val :: "string \<Rightarrow> int" where
  "digits_val ds = foldl (\<lambda>acc c. 10 * acc + digit_val c) 0 ds"

definition is_space :: "char \<Rightarrow> bool" where
  "is_space c \<longleftrightarrow> (of_char c :: nat) \<in> {9, 10, 11, 12, 13, 32}"

definition lower :: "char \<Rightarrow> char" where
  "lower c = (let n = of_char c :: nat in if 65 \<le> n \<and> n \<le> 90 then char_of (n + 32) else c)"

text \<open>\<^verbatim>\<open>value.strip().replace("_", "")\<close>, then lower case.\<close>

definition clean :: "string \<Rightarrow> string" where
  "clean s =
     map lower (filter (\<lambda>c. c \<noteq> CHR ''_'')
       (rev (dropWhile is_space (rev (dropWhile is_space s)))))"

definition split_sign :: "string \<Rightarrow> bool \<times> string" where
  "split_sign s =
     (case s of
        c # cs \<Rightarrow> if c = CHR ''-'' then (True, cs) else if c = CHR ''+'' then (False, cs) else (False, s)
      | [] \<Rightarrow> (False, s))"

text \<open>The exponent part after the indicator: an optional sign and at least one digit.\<close>

definition parse_exponent :: "string \<Rightarrow> int option" where
  "parse_exponent s =
     (let (neg, ds) = split_sign s in
      if ds = [] \<or> \<not> list_all is_digit ds then None
      else Some (if neg then - digits_val ds else digits_val ds))"

text \<open>
  \<^verbatim>\<open>Decimal(s)\<close> for a string: the conversion is exact whatever the precision of the
  context. A string that is no number raises \<^verbatim>\<open>InvalidOperation\<close>.
\<close>

definition Decimal :: "string \<Rightarrow> py_error + decimal" where
  "Decimal s =
     (let (neg, body) = split_sign (clean s) in
      if body = ''inf'' \<or> body = ''infinity'' then Inr (Infinity neg)
      else if take 3 body = ''nan'' \<and> list_all is_digit (drop 3 body) then Inr NaN
      else if take 4 body = ''snan'' \<and> list_all is_digit (drop 4 body) then Inr SNaN
      else
        let mantissa = takeWhile (\<lambda>c. c \<noteq> CHR ''e'') body;
            exp_part = dropWhile (\<lambda>c. c \<noteq> CHR ''e'') body;
            intpart = takeWhile (\<lambda>c. c \<noteq> CHR ''.'') mantissa;
            fracpart = drop 1 (dropWhile (\<lambda>c. c \<noteq> CHR ''.'') mantissa)
        in
        if intpart @ fracpart = [] \<or> \<not> list_all is_digit (intpart @ fracpart) then Inl InvalidOperation
        else
          case (if exp_part = [] then Some 0 else parse_exponent (drop 1 exp_part)) of
            None \<Rightarrow> Inl InvalidOperation
          | Some ex \<Rightarrow> Inr (Finite neg (digits_val (intpart @ fracpart)) (ex - int (length fracpart))))"

text \<open>\<^verbatim>\<open>Decimal(str(n))\<close> for an integer \<open>n\<close>.\<close>

definition Decimal_of_int :: "int \<Rightarrow> decimal" where
  "Decimal_of_int n = Finite (n < 0) \<bar>n\<bar> 0"

text \<open>
  The default context: 28 digits of precision, rounding half to even. A result whose
  coefficient has more digits is rounded. The exponent limits of the context, \<open>-999999\<close> and
  \<open>999999\<close>, are not modelled.
\<close>

definition prec :: nat where
  "prec = 28"

function ndigits :: "int \<Rightarrow> nat" where
  "ndigits n = (if n < 10 then 1 else Suc (ndigits (n div 10)))"
  by pat_completeness auto
termination
  by (relation "measure nat") auto

definition dec_fix :: "bool \<Rightarrow> int \<Rightarrow> int \<Rightarrow> decimal" where
  "dec_fix neg c e =
     (if c < 10 ^ prec then Finite neg c e
      else
        let k = ndigits c - prec;
            q = c div 10 ^ k;
            r = c mod 10 ^ k;
            half = 5 * 10 ^ (k - 1);
            q' = (if r > half \<or> (r = half \<and> odd q) then q + 1 else q)
        in if q' = 10 ^ prec then Finite neg (10 ^ (prec - 1)) (e + int k + 1)
           else Finite neg q' (e + int k))"

text \<open>
  Multiplication and addition of the context. Infinity times zero and any operation on a
  signalling NaN raise \<^verbatim>\<open>InvalidOperation\<close>, as does the sum of two infinities of
  opposite signs.
\<close>

fun dec_mul :: "decimal \<Rightarrow> decimal \<Rightarrow> py_error + decimal" where
  "dec_mul SNaN _ = Inl InvalidOperation"
| "dec_mul _ SNaN = Inl InvalidOperation"
| "dec_mul NaN _ = Inr NaN"
| "dec_mul _ NaN = Inr NaN"
| "dec_mul (Infinity s1) (Infinity s2) = Inr (Infinity (s1 \<noteq> s2))"
| "dec_mul (Infinity s1) (Finite s2 c2 e2) =
     (if c2 = 0 then Inl InvalidOperation else Inr (Infinity (s1 \<noteq> s2)))"
| "dec_mul (Finite s1 c1 e1) (Infinity s2) =
     (if c1 = 0 then Inl InvalidOperation else Inr (Infinity (s1 \<noteq> s2)))"
| "dec_mul (Finite s1 c1 e1) (Finite s2 c2 e2) = Inr (dec_fix (s1 \<noteq> s2) (c1 * c2) (e1 + e2))"

definition signed :: "bool \<Rightarrow> int \<Rightarrow> int" where
  "signed neg c = (if neg then - c else c)"

fun dec_add :: "decimal \<Rightarrow> decimal \<Rightarrow> py_error + decimal" where
  "dec_add SNaN _ = Inl InvalidOperation"
| "dec_add _ SNaN = Inl InvalidOperation"
| "dec_add NaN _ = Inr NaN"
| "dec_add _ NaN = Inr NaN"
| "dec_add (Infinity s1) (Infinity s2) =
     (if s1 = s2 then Inr (Infinity s1) else Inl InvalidOperation)"
| "dec_add (Infinity s1) (Finite s2 c2 e2) = Inr (Infinity s1)"
| "dec_add (Finite s1 c1 e1) (Infinity s2) = Inr (Infinity s2)"
| "dec_add (Finite s1 c1 e1) (Finite s2 c2 e2) =
     (let e = min e1 e2;
          v = signed s1 c1 * 10 ^ nat (e1 - e) + signed s2 c2 * 10 ^ nat (e2 - e)
      in Inr (dec_fix (if v = 0 then s1 \<and> s2 else v < 0) \<bar>v\<bar> e))"

text \<open>
  \<^verbatim>\<open>int(d)\<close> truncates towards zero; an infinity raises \<^verbatim>\<open>OverflowError\<close> and a
  NaN \<^verbatim>\<open>ValueError\<close>.
\<close>

fun dec_int :: "decimal \<Rightarrow> py_error + int" where
  "dec_int (Finite neg c e) =
     Inr (signed neg (if 0 \<le> e then c * 10 ^ nat e else c div 10 ^ nat (- e)))"
| "dec_int (Infinity _) = Inl OverflowError"
| "dec_int _ = Inl ValueError"

text \<open>
  An array of decimals becomes an array of 64-bit integers (\<^verbatim>\<open>dtype=int\<close>): each
  element goes through \<^verbatim>\<open>int\<close>, and a value outside the 64-bit range raises
  \<^verbatim>\<open>OverflowError\<close>.
\<close>

definition to_int64 :: "decimal \<Rightarrow> py_error + int" where
  "to_int64 d =
     (case dec_int d of
        Inl e \<Rightarrow> Inl e
      | Inr v \<Rightarrow> if - (2 ^ 63) \<le> v \<and> v < 2 ^ 63 then Inr v else Inl OverflowError)"

text \<open>\<^verbatim>\<open>SEC2NSEC = Decimal("1e9")\<close>.\<close>

definition SEC2NSEC :: decimal where
  "SEC2NSEC = Finite False 1 9"

text \<open>
  Lines 164 to 166 for one LST-1 event, from \<open>s = str(time)\<close>:
  \<^verbatim>\<open>Decimal(s) * SEC2NSEC\<close> as a 64-bit integer.
\<close>

definition timestamp_lst :: "string \<Rightarrow> py_error + int" where
  "timestamp_lst s =
     (case Decimal s of
        Inl e \<Rightarrow> Inl e
      | Inr d \<Rightarrow> (case dec_mul d SEC2NSEC of Inl e \<Rightarrow> Inl e | Inr ns \<Rightarrow> to_int64 ns))"

text \<open>
  Lines 176 to 180 for one MAGIC event with the integer fields \<^verbatim>\<open>time_sec\<close> and
  \<^verbatim>\<open>time_nanosec\<close>: \<^verbatim>\<open>seconds * SEC2NSEC + nseconds\<close> as a 64-bit integer.
\<close>

definition timestamp_magic :: "int \<Rightarrow> int \<Rightarrow> py_error + int" where
  "timestamp_magic time_sec time_nanosec =
     (case dec_mul (Decimal_of_int time_sec) SEC2NSEC of
        Inl e \<Rightarrow> Inl e
      | Inr s \<Rightarrow>
          (case dec_add s (Decimal_of_int time_nanosec) of
             Inl e \<Rightarrow> Inl e
           | Inr ns \<Rightarrow> to_int64 ns))"

text \<open>A whole column: the first exception ends the conversion.\<close>

fun sequence :: "(py_error + 'a) list \<Rightarrow> py_error + 'a list" where
  "sequence [] = Inr []"
| "sequence (x # xs) =
     (case x of
        Inl e \<Rightarrow> Inl e
      | Inr v \<Rightarrow> (case sequence xs of Inl e \<Rightarrow> Inl e | Inr vs \<Rightarrow> Inr (v # vs)))"

subsection \<open>The event tables\<close>

text \<open>
  An LST-1 event: the index \<^verbatim>\<open>(obs_id_lst, event_id_lst, tel_id)\<close>, the timestamp as
  the string \<^verbatim>\<open>str(time)\<close> of line 164, and the parameters common to both tables. A
  MAGIC event: the index \<^verbatim>\<open>(obs_id_magic, event_id_magic, tel_id)\<close>, the two integer
  time fields and the common parameters. The parameters are opaque, of any type \<open>'p\<close>.
\<close>

record 'p lst_event =
  obs_id_lst :: int
  event_id_lst :: int
  lst_tel_id :: int
  lst_time :: string
  lst_params :: 'p

record 'p magic_event =
  obs_id_magic :: int
  event_id_magic :: int
  magic_tel_id :: int
  time_sec :: int
  time_nanosec :: int
  magic_params :: 'p

text \<open>
  The column \<^verbatim>\<open>timestamp\<close> of the merged table holds seconds as a float: for an LST-1
  row the float read from the file, which its string determines, and for a MAGIC row the
  nanoseconds scaled by \<^verbatim>\<open>to_value("s")\<close>, which the model keeps as the nanoseconds.
\<close>

datatype time_column =
    Time_lst string
  | Time_magic int

text \<open>
  A row of \<^verbatim>\<open>event_data\<close> between lines 325 and 353, indexed by
  \<^verbatim>\<open>(obs_id_magic, event_id_magic, tel_id)\<close>. The columns \<^verbatim>\<open>obs_id_lst\<close> and
  \<^verbatim>\<open>event_id_lst\<close> are assigned together (lines 289 and 297 to 298), so they are
  missing together: they are one optional pair, \<open>None\<close> for NaN.
\<close>

record 'p event_row =
  row_obs_id_magic :: int
  row_event_id_magic :: int
  row_tel_id :: int
  row_ids_lst :: "(int \<times> int) option"
  row_timestamp :: time_column
  row_params :: 'p

text \<open>The index of a row and its columns, which \<^verbatim>\<open>drop_duplicates\<close> compares.\<close>

definition row_index :: "'p event_row \<Rightarrow> int \<times> int \<times> int" where
  "row_index r = (row_obs_id_magic r, row_event_id_magic r, row_tel_id r)"

definition row_columns :: "'p event_row \<Rightarrow> (int \<times> int) option \<times> time_column \<times> 'p" where
  "row_columns r = (row_ids_lst r, row_timestamp r, row_params r)"

definition row_group :: "'p event_row \<Rightarrow> int \<times> int" where
  "row_group r = (row_obs_id_magic r, row_event_id_magic r)"

text \<open>
  Lines 280 to 290: the LST-1 events of the coincident pairs, one row for each pair,
  carrying the MAGIC observation and event IDs of the pair.
\<close>

definition make_df_lst ::
    "'p lst_event list \<Rightarrow> 'p magic_event list \<Rightarrow> (nat \<times> nat) list \<Rightarrow> 'p event_row list" where
  "make_df_lst event_data_lst df_magic pairs =
     map (\<lambda>(i, j).
        let l = event_data_lst ! i; m = df_magic ! j in
        \<lparr> row_obs_id_magic = obs_id_magic m,
          row_event_id_magic = event_id_magic m,
          row_tel_id = lst_tel_id l,
          row_ids_lst = Some (obs_id_lst l, event_id_lst l),
          row_timestamp = Time_lst (lst_time l),
          row_params = lst_params l \<rparr>) pairs"

text \<open>
  Lines 294 to 298: every extracted MAGIC event is a row; the coincident ones get the
  LST-1 IDs of their pair. The assignment runs over the pairs in order, so a MAGIC event
  in several pairs keeps the IDs of the last one. (The script addresses the MAGIC rows by
  their index; the index of one telescope's events is unique, and the model addresses
  them by position.)
\<close>

definition assigned_ids :: "'p lst_event list \<Rightarrow> (nat \<times> nat) list \<Rightarrow> nat \<Rightarrow> (int \<times> int) option" where
  "assigned_ids event_data_lst pairs j =
     (case filter (\<lambda>(i, j'). j' = j) pairs of
        [] \<Rightarrow> None
      | p # ps \<Rightarrow>
          let l = event_data_lst ! fst (last (p # ps)) in Some (obs_id_lst l, event_id_lst l))"

definition make_df_magic ::
    "'p lst_event list \<Rightarrow> 'p magic_event list \<Rightarrow> int list \<Rightarrow> (nat \<times> nat) list \<Rightarrow> 'p event_row list" where
  "make_df_magic event_data_lst df_magic timestamps_magic pairs =
     map (\<lambda>(j, m, t).
        \<lparr> row_obs_id_magic = obs_id_magic m,
          row_event_id_magic = event_id_magic m,
          row_tel_id = magic_tel_id m,
          row_ids_lst = assigned_ids event_data_lst pairs j,
          row_timestamp = Time_magic t,
          row_params = magic_params m \<rparr>)
       (zip [0..<length df_magic] (zip df_magic timestamps_magic))"

subsection \<open>The loop over the telescope combinations\<close>

text \<open>\<^verbatim>\<open>TEL_NAMES\<close> of \<^verbatim>\<open>magicctapipe/io/io.py\<close> has the keys 1, 2 and 3.\<close>

definition TEL_NAMES :: "int \<Rightarrow> string option" where
  "TEL_NAMES tel_id =
     (if tel_id = 1 then Some ''LST-1''
      else if tel_id = 2 then Some ''MAGIC-I''
      else if tel_id = 3 then Some ''MAGIC-II''
      else None)"

text \<open>
  One row of \<^verbatim>\<open>features\<close> (without the mean pointing directions and times, which are
  floats of the parameters) and one column of \<^verbatim>\<open>profiles\<close>.
\<close>

record feature =
  coincidence_id :: int
  feature_window_half_width :: int
  feature_average_offset :: int
  feature_n_coincidence :: nat
  feature_n_events_magic :: nat

record 'p tables =
  event_data :: "'p event_row list"
  features :: "feature list"
  profiles :: "(int \<times> nat list) list"

definition empty_tables :: "'p tables" where
  "empty_tables = \<lparr> event_data = [], features = [], profiles = [] \<rparr>"

text \<open>
  The body of the loop, lines 172 to 327, for one \<^verbatim>\<open>tel_id\<close>. The two
  \<^verbatim>\<open>continue\<close> statements leave the tables as they are.
\<close>

definition loop_body ::
    "'p lst_event list \<Rightarrow> int list \<Rightarrow> 'p magic_event list \<Rightarrow> int list \<Rightarrow> int \<Rightarrow>
     int \<Rightarrow> 'p tables \<Rightarrow> py_error + 'p tables" where
  "loop_body event_data_lst timestamps_lst event_data_magic time_offsets window_half_width tel_id tabs =
     (case TEL_NAMES tel_id of
        None \<Rightarrow> Inl KeyError
      | Some tel_name \<Rightarrow>
          let df_magic_all = filter (\<lambda>m. magic_tel_id m = tel_id) event_data_magic in
          case sequence (map (\<lambda>m. timestamp_magic (time_sec m) (time_nanosec m)) df_magic_all) of
            Inl e \<Rightarrow> Inl e
          | Inr timestamps_magic_all \<Rightarrow>
              (case check_coincidence timestamps_lst time_offsets window_half_width timestamps_magic_all of
                 Inl e \<Rightarrow> Inl e
               | Inr No_events \<Rightarrow> Inr tabs
               | Inr No_coincidence \<Rightarrow> Inr tabs
               | Inr (Coincident c) \<Rightarrow>
                   let df_magic = select df_magic_all (kept_magic c);
                       timestamps_magic = select timestamps_magic_all (kept_magic c);
                       df_lst = make_df_lst event_data_lst df_magic (indices c);
                       df_magic' = make_df_magic event_data_lst df_magic timestamps_magic (indices c);
                       df_feature =
                         \<lparr> coincidence_id = 10 + tel_id,
                           feature_window_half_width = window_half_width,
                           feature_average_offset = offset_avg c,
                           feature_n_coincidence = n_events_at_avg c,
                           feature_n_events_magic = n_events_magic c \<rparr>
                   in Inr \<lparr> event_data = event_data tabs @ df_lst @ df_magic',
                            features = features tabs @ [df_feature],
                            profiles = profiles tabs @ [(10 + tel_id, n_coincidences c)] \<rparr>))"

fun tel_loop ::
    "'p lst_event list \<Rightarrow> int list \<Rightarrow> 'p magic_event list \<Rightarrow> int list \<Rightarrow> int \<Rightarrow>
     int list \<Rightarrow> 'p tables \<Rightarrow> py_error + 'p tables" where
  "tel_loop event_data_lst timestamps_lst event_data_magic time_offsets window_half_width [] tabs =
     Inr tabs"
| "tel_loop event_data_lst timestamps_lst event_data_magic time_offsets window_half_width
     (tel_id # tel_ids) tabs =
     (case loop_body event_data_lst timestamps_lst event_data_magic time_offsets window_half_width
             tel_id tabs of
        Inl e \<Rightarrow> Inl e
      | Inr tabs' \<Rightarrow>
          tel_loop event_data_lst timestamps_lst event_data_magic time_offsets window_half_width
            tel_ids tabs')"

subsection \<open>The merged table\<close>

text \<open>
  \<^verbatim>\<open>drop_duplicates\<close>: a row whose columns equal those of an earlier row is dropped;
  the index is not compared.
\<close>

fun drop_duplicates_from :: "'c list \<Rightarrow> ('r \<Rightarrow> 'c) \<Rightarrow> 'r list \<Rightarrow> 'r list" where
  "drop_duplicates_from seen cols [] = []"
| "drop_duplicates_from seen cols (r # rs) =
     (if cols r \<in> set seen then drop_duplicates_from seen cols rs
      else r # drop_duplicates_from (cols r # seen) cols rs)"

definition drop_duplicates :: "'p event_row list \<Rightarrow> 'p event_row list" where
  "drop_duplicates rows = drop_duplicates_from [] row_columns rows"

text \<open>
  Line 345: the groups of \<^verbatim>\<open>(obs_id_magic, event_id_magic)\<close> with the means of
  \<^verbatim>\<open>obs_id_lst\<close> and \<^verbatim>\<open>event_id_lst\<close>. A mean skips the missing values and is
  missing itself when its group has no value.
\<close>

definition group_values :: "'p event_row list \<Rightarrow> int \<times> int \<Rightarrow> (int \<times> int) list" where
  "group_values rows g =
     concat (map (\<lambda>r. case row_ids_lst r of None \<Rightarrow> [] | Some v \<Rightarrow> [v])
       (filter (\<lambda>r. row_group r = g) rows))"

definition group_mean :: "'p event_row list \<Rightarrow> ((int \<times> int) \<times> (rat \<times> rat) option) list" where
  "group_mean rows =
     map (\<lambda>g.
        let vals = group_values rows g in
        (g, if vals = [] then None else Some (mean (map fst vals), mean (map snd vals))))
       (sort (remdups (map row_group rows)))"

text \<open>
  A row of the table after line 356, indexed by \<^verbatim>\<open>(obs_id, event_id, tel_id)\<close>; the
  former index levels \<^verbatim>\<open>obs_id_magic\<close> and \<^verbatim>\<open>event_id_magic\<close> are columns now.
\<close>

record 'p output_row =
  obs_id :: rat
  event_id :: rat
  tel_id :: int
  out_obs_id_magic :: int
  out_event_id_magic :: int
  out_ids_lst :: "(int \<times> int) option"
  out_timestamp :: time_column
  out_params :: 'p

definition output_index :: "'p output_row \<Rightarrow> rat \<times> rat \<times> int" where
  "output_index r = (obs_id r, event_id r, tel_id r)"

text \<open>
  Lines 347 to 353 for one row: the means of its group are its IDs, and where the mean of
  \<^verbatim>\<open>obs_id_lst\<close> is missing, the MAGIC IDs of the index are.
\<close>

definition resolve_row :: "((int \<times> int) \<times> (rat \<times> rat) option) list \<Rightarrow> 'p event_row \<Rightarrow> 'p output_row" where
  "resolve_row means r =
     (let ids =
        (case map_of means (row_group r) of
           Some (Some (o_lst, e_lst)) \<Rightarrow> (o_lst, e_lst)
         | _ \<Rightarrow> (of_int (row_obs_id_magic r), of_int (row_event_id_magic r)))
      in \<lparr> obs_id = fst ids,
           event_id = snd ids,
           tel_id = row_tel_id r,
           out_obs_id_magic = row_obs_id_magic r,
           out_event_id_magic = row_event_id_magic r,
           out_ids_lst = row_ids_lst r,
           out_timestamp = row_timestamp r,
           out_params = row_params r \<rparr>)"

text \<open>Lines 333 to 357. The sorts are stable.\<close>

definition deduplicated :: "'p event_row list \<Rightarrow> 'p event_row list" where
  "deduplicated rows = drop_duplicates (sort_key row_index rows)"

definition merged_table :: "'p event_row list \<Rightarrow> 'p output_row list" where
  "merged_table rows =
     (let rows' = deduplicated rows
      in sort_key output_index (map (resolve_row (group_mean rows')) rows'))"

subsection \<open>The whole run\<close>

text \<open>
  The run ends in \<^verbatim>\<open>sys.exit()\<close>, which leaves with status 0 before anything is
  written, or it writes the three tables to the output file. (The stereo selection of
  \<^verbatim>\<open>get_stereo_events\<close> between the merged table and the file is left out.)
\<close>

record 'p output_file =
  events_parameters :: "'p output_row list"
  coincidence_feature :: "feature list"
  coincidence_profile :: "(int \<times> nat list) list"

datatype 'p outcome =
    Exited int
  | Saved "'p output_file"

text \<open>\<^verbatim>\<open>np.unique\<close>: the distinct values in ascending order.\<close>

definition np_unique :: "int list \<Rightarrow> int list" where
  "np_unique xs = sort (remdups xs)"

definition event_coincidence ::
    "'p lst_event list \<Rightarrow> 'p magic_event list \<Rightarrow> int \<Rightarrow> int \<Rightarrow> int \<Rightarrow> py_error + 'p outcome" where
  "event_coincidence event_data_lst event_data_magic window_half_width offset_start offset_stop =
     (let time_offsets = time_offsets_of offset_start offset_stop in
      case sequence (map (\<lambda>l. timestamp_lst (lst_time l)) event_data_lst) of
        Inl e \<Rightarrow> Inl e
      | Inr timestamps_lst \<Rightarrow>
          let tel_ids = np_unique (map magic_tel_id event_data_magic) in
          case tel_loop event_data_lst timestamps_lst event_data_magic time_offsets
                 window_half_width tel_ids empty_tables of
            Inl e \<Rightarrow> Inl e
          | Inr tabs \<Rightarrow>
              if event_data tabs = [] then Inr (Exited 0)
              else Inr (Saved
                     \<lparr> events_parameters = merged_table (event_data tabs),
                       coincidence_feature = features tabs,
                       coincidence_profile = profiles tabs \<rparr>))"

subsection \<open>The specification's wording, for comparison\<close>



section \<open>The coincidence window\<close>




section \<open>The offset at the maximum\<close>

lemma offsets_at_max_filter:
  "offsets_at_max offs (map f offs) = filter (\<lambda>off. f off = Max (set (map f offs))) offs"
proof -
  have z: "zip offs (map f offs) = map (\<lambda>x. (x, f x)) offs"
    by (induction offs) simp_all
  show ?thesis
    unfolding offsets_at_max_def z by (simp add: filter_map comp_def)
qed

lemma arange_strict: "0 < step \<Longrightarrow> sorted_wrt (<) (arange start stop step)"
  by (simp add: arange_def sorted_wrt_map sorted_wrt_iff_nth_less)

lemma time_offsets_strict: "sorted_wrt (<) (time_offsets_of start stop)"
  by (simp add: time_offsets_of_def TIME_ACCURACY_def arange_strict)

lemma sum_list_lower:
  fixes a :: int
  shows "\<forall>z \<in> set xs. a \<le> z \<Longrightarrow> a * int (length xs) \<le> sum_list xs"
  by (induction xs) (auto simp: algebra_simps)

lemma sum_list_lower_strict:
  fixes a :: int
  shows "\<forall>z \<in> set xs. a \<le> z \<Longrightarrow> \<exists>z \<in> set xs. a < z \<Longrightarrow> a * int (length xs) < sum_list xs"
proof (induction xs)
  case Nil then show ?case by simp
next
  case (Cons x xs)
  show ?case
  proof (cases "a < x")
    case True
    from Cons.prems(1) have "a * int (length xs) \<le> sum_list xs" by (simp add: sum_list_lower)
    with True show ?thesis by (simp add: algebra_simps)
  next
    case False
    with Cons.prems have "\<exists>z \<in> set xs. a < z" "\<forall>z \<in> set xs. a \<le> z" "a \<le> x" by auto
    with Cons.IH show ?thesis by (simp add: algebra_simps)
  qed
qed

lemma sum_list_upper_strict:
  fixes b :: int
  assumes a: "\<forall>z \<in> set xs. z \<le> b" "\<exists>z \<in> set xs. z < b"
  shows "sum_list xs < b * int (length xs)"
proof -
  have "(- b) * int (length (map uminus xs)) < sum_list (map uminus xs)"
    by (rule sum_list_lower_strict) (use a in auto)
  moreover have "sum_list (map uminus xs) = - sum_list xs"
    by (induction xs) simp_all
  ultimately show ?thesis by simp
qed

lemma sorted_wrt_hd_last:
  fixes xs :: "int list"
  assumes "sorted_wrt (<) xs" "2 \<le> length xs"
  shows "hd xs < last xs"
    and "\<forall>z \<in> set xs. hd xs \<le> z"
    and "\<forall>z \<in> set xs. z \<le> last xs"
proof -
  have n: "0 < length xs" and ne: "xs \<noteq> []" using assms(2) by auto
  have h: "hd xs = xs ! 0" using ne by (simp add: hd_conv_nth)
  have l: "last xs = xs ! (length xs - 1)" using ne by (simp add: last_conv_nth)
  have lt: "\<And>i j. i < j \<Longrightarrow> j < length xs \<Longrightarrow> xs ! i < xs ! j"
    using assms(1) by (simp add: sorted_wrt_iff_nth_less)
  show "hd xs < last xs"
    unfolding h l using assms(2) by (intro lt) simp_all
  show "\<forall>z \<in> set xs. hd xs \<le> z"
  proof
    fix z assume "z \<in> set xs"
    then obtain i where i: "i < length xs" "z = xs ! i" by (auto simp: in_set_conv_nth)
    show "hd xs \<le> z"
    proof (cases "i = 0")
      case True then show ?thesis using i h by simp
    next
      case False then show ?thesis using lt[of 0 i] i h by simp
    qed
  qed
  show "\<forall>z \<in> set xs. z \<le> last xs"
  proof
    fix z assume "z \<in> set xs"
    then obtain i where i: "i < length xs" "z = xs ! i" by (auto simp: in_set_conv_nth)
    show "z \<le> last xs"
    proof (cases "i = length xs - 1")
      case True then show ?thesis using i l by simp
    next
      case False
      then have "i < length xs - 1" "length xs - 1 < length xs" using i n by arith+
      then have "xs ! i < xs ! (length xs - 1)" by (rule lt)
      then show ?thesis using i l by simp
    qed
  qed
qed

lemma mean_between:
  assumes "sorted_wrt (<) xs" "2 \<le> length xs"
  shows "of_int (hd xs) < mean xs \<and> mean xs < of_int (last xs)"
proof -
  have n: "0 < length xs" and ne: "xs \<noteq> []" using assms by auto
  have lastin: "last xs \<in> set xs" and hdin: "hd xs \<in> set xs" using ne by simp_all
  note hl = sorted_wrt_hd_last[OF assms]
  have 1: "hd xs * int (length xs) < sum_list xs"
    using sum_list_lower_strict[OF hl(2)] lastin hl(1) by blast
  have 2: "sum_list xs < last xs * int (length xs)"
    using sum_list_upper_strict[OF hl(3)] hdin hl(1) by blast
  have pos: "(0::rat) < of_int (int (length xs))" using n by simp
  have "(of_int (hd xs * int (length xs)) :: rat) < of_int (sum_list xs)"
    using 1 by (simp only: of_int_less_iff)
  then have a: "of_int (hd xs) < mean xs"
    unfolding mean_def using pos by (simp add: pos_less_divide_eq)
  have "(of_int (sum_list xs) :: rat) < of_int (last xs * int (length xs))"
    using 2 by (simp only: of_int_less_iff)
  then have b: "mean xs < of_int (last xs)"
    unfolding mean_def using pos by (simp add: pos_divide_less_eq)
  from a b show ?thesis by simp
qed

text \<open>
  C3. The offset at the maximum is the arithmetic mean of all the time offsets of the scan
  whose number of coincidences is the maximum of the scan. When one offset attains the
  maximum it is that offset; when several do, the mean lies strictly between the first
  and the last of them, so it is neither.
\<close>

theorem offset_at_max_is_mean:
  assumes "offs = time_offsets_of offset_start offset_stop"
    and "counts = scan_offsets ts1 ts2 w offs"
    and "ms = filter (\<lambda>off. n_coincidence_at ts1 ts2 w off = Max (set counts)) offs"
  shows "offsets_at_max offs counts = ms
       \<and> offset_at_max offs counts = of_int (sum_list ms) / of_nat (length ms)
       \<and> (\<forall>m. ms = [m] \<longrightarrow> offset_at_max offs counts = of_int m)
       \<and> (2 \<le> length ms \<longrightarrow>
            of_int (hd ms) < offset_at_max offs counts \<and> offset_at_max offs counts < of_int (last ms))"
proof -
  have ms: "offsets_at_max offs counts = ms"
    unfolding assms(2,3) scan_offsets_def by (rule offsets_at_max_filter)
  have sorted: "sorted_wrt (<) ms"
    unfolding assms(3) assms(1) by (intro sorted_wrt_filter time_offsets_strict)
  show ?thesis
    using ms mean_between[OF sorted] by (auto simp: offset_at_max_def mean_def)
qed

theorem offset_at_max_is_mean_witness:
  "offset_at_max (time_offsets_of 0 200) (scan_offsets [0] [-250, 350] 300 (time_offsets_of 0 200)) = 50
   \<and> offsets_at_max (time_offsets_of 0 200) (scan_offsets [0] [-250, 350] 300 (time_offsets_of 0 200)) = [0, 100]
   \<and> offset_at_max (time_offsets_of 0 100) (scan_offsets [0] [0] 300 (time_offsets_of 0 100)) = 0"
  using offset_at_max_is_mean [OF refl refl refl, of 0 200 "[0]" "[-250, 350]" 300]
    offset_at_max_is_mean [OF refl refl refl, of 0 100 "[0]" "[0]" 300]
  by (simp add: time_offsets_of_def arange_def TIME_ACCURACY_def scan_offsets_def
      n_coincidence_at_def count_nonzero_def coincidence_mask_def upt_conv_Cons)

section \<open>The average offset\<close>







text \<open>
  C10. The sum of the weights in the average region is not always positive. One LST-1
  event at 1620000000 s and two MAGIC-I events 6500 ns and 4500 ns before it, with the
  window of 300 ns and the time offsets from -7000 ns to -4000 ns: the offsets from
  -6800 ns to -6200 ns and from -4800 ns to -4200 ns all count one coincidence, their
  mean is -5500 ns, no offset between -6100 ns and -4900 ns counts any, and
  \<^verbatim>\<open>np.average\<close> raises \<^verbatim>\<open>ZeroDivisionError\<close>.
\<close>

theorem average_offset_zero_weights:
  "event_coincidence
     [\<lparr> obs_id_lst = 3265, event_id_lst = 1, lst_tel_id = 1, lst_time = ''1620000000.0'',
         lst_params = () \<rparr>]
     [\<lparr> obs_id_magic = 5093711, event_id_magic = 1, magic_tel_id = 2,
         time_sec = 1619999999, time_nanosec = 999993500, magic_params = () \<rparr>,
      \<lparr> obs_id_magic = 5093711, event_id_magic = 2, magic_tel_id = 2,
         time_sec = 1619999999, time_nanosec = 999995500, magic_params = () \<rparr>]
     300 (-7000) (-4000)
   = Inl ZeroDivisionError"
  by code_simp

section \<open>The extraction of the MAGIC events\<close>






section \<open>The average region and the final coincidence test\<close>



lemma np_round_of_int: "np_round (of_int k) = k"
  by (simp add: np_round_def)







section \<open>The end of the run\<close>

lemma loop_body_skip:
  assumes "TEL_NAMES tid \<noteq> None"
    and "sequence (map (\<lambda>m. timestamp_magic (time_sec m) (time_nanosec m))
           (filter (\<lambda>m. magic_tel_id m = tid) event_data_magic)) = Inr ts"
    and "check_coincidence timestamps_lst offs w ts = Inr No_events
         \<or> check_coincidence timestamps_lst offs w ts = Inr No_coincidence"
  shows "loop_body event_data_lst timestamps_lst event_data_magic offs w tid tabs = Inr tabs"
  using assms by (auto simp: loop_body_def)

lemma tel_loop_all_skipped:
  assumes "\<And>tid. tid \<in> set tids \<Longrightarrow>
             loop_body event_data_lst timestamps_lst event_data_magic offs w tid tabs = Inr tabs"
  shows "tel_loop event_data_lst timestamps_lst event_data_magic offs w tids tabs = Inr tabs"
  using assms by (induction tids) simp_all

text \<open>
  C9. When the table of events is empty after the loop over the telescopes, the run ends
  in \<^verbatim>\<open>sys.exit()\<close>: the status is 0, no exception of the script is raised and
  nothing is written. It is so in particular when every telescope is skipped, because
  none of its MAGIC events was taken when LST-1 observed or because no time offset gave
  a coincidence. (The LST-1 timestamps are assumed to convert, and the telescopes to be
  known to \<^verbatim>\<open>TEL_NAMES\<close>, with timestamps that convert: the loop is entered.)
\<close>

theorem no_coincidence_exits:
  assumes "sequence (map (\<lambda>l. timestamp_lst (lst_time l)) event_data_lst) = Inr timestamps_lst"
  shows "(\<forall>tabs. tel_loop event_data_lst timestamps_lst event_data_magic
                  (time_offsets_of offset_start offset_stop) w
                  (np_unique (map magic_tel_id event_data_magic)) empty_tables = Inr tabs
               \<and> event_data tabs = [] \<longrightarrow>
            event_coincidence event_data_lst event_data_magic w offset_start offset_stop
              = Inr (Exited 0))
       \<and> ((\<forall>tid \<in> set (map magic_tel_id event_data_magic).
              TEL_NAMES tid \<noteq> None
              \<and> (\<exists>ts. sequence (map (\<lambda>m. timestamp_magic (time_sec m) (time_nanosec m))
                          (filter (\<lambda>m. magic_tel_id m = tid) event_data_magic)) = Inr ts
                    \<and> (check_coincidence timestamps_lst (time_offsets_of offset_start offset_stop) w ts
                          = Inr No_events
                        \<or> check_coincidence timestamps_lst (time_offsets_of offset_start offset_stop) w ts
                          = Inr No_coincidence))) \<longrightarrow>
            event_coincidence event_data_lst event_data_magic w offset_start offset_stop
              = Inr (Exited 0))"
proof (intro conjI allI impI)
  fix tabs
  assume "tel_loop event_data_lst timestamps_lst event_data_magic
            (time_offsets_of offset_start offset_stop) w
            (np_unique (map magic_tel_id event_data_magic)) empty_tables = Inr tabs
          \<and> event_data tabs = []"
  then show "event_coincidence event_data_lst event_data_magic w offset_start offset_stop
               = Inr (Exited 0)"
    using assms by (simp add: event_coincidence_def)
next
  assume skip: "\<forall>tid \<in> set (map magic_tel_id event_data_magic).
              TEL_NAMES tid \<noteq> None
              \<and> (\<exists>ts. sequence (map (\<lambda>m. timestamp_magic (time_sec m) (time_nanosec m))
                          (filter (\<lambda>m. magic_tel_id m = tid) event_data_magic)) = Inr ts
                    \<and> (check_coincidence timestamps_lst (time_offsets_of offset_start offset_stop) w ts
                          = Inr No_events
                        \<or> check_coincidence timestamps_lst (time_offsets_of offset_start offset_stop) w ts
                          = Inr No_coincidence))"
  have "tel_loop event_data_lst timestamps_lst event_data_magic
          (time_offsets_of offset_start offset_stop) w
          (np_unique (map magic_tel_id event_data_magic)) empty_tables = Inr empty_tables"
  proof (rule tel_loop_all_skipped)
    fix tid assume "tid \<in> set (np_unique (map magic_tel_id event_data_magic))"
    then have "tid \<in> set (map magic_tel_id event_data_magic)"
      by (simp add: np_unique_def)
    with skip obtain ts where "TEL_NAMES tid \<noteq> None"
      "sequence (map (\<lambda>m. timestamp_magic (time_sec m) (time_nanosec m))
          (filter (\<lambda>m. magic_tel_id m = tid) event_data_magic)) = Inr ts"
      "check_coincidence timestamps_lst (time_offsets_of offset_start offset_stop) w ts = Inr No_events
       \<or> check_coincidence timestamps_lst (time_offsets_of offset_start offset_stop) w ts
           = Inr No_coincidence"
      by blast
    then show "loop_body event_data_lst timestamps_lst event_data_magic
                 (time_offsets_of offset_start offset_stop) w tid empty_tables = Inr empty_tables"
      by (rule loop_body_skip)
  qed
  then show "event_coincidence event_data_lst event_data_magic w offset_start offset_stop
               = Inr (Exited 0)"
    using assms by (simp add: event_coincidence_def empty_tables_def)
qed

theorem no_coincidence_exits_witness:
  "tel_loop [\<lparr> obs_id_lst = 3265, event_id_lst = 1, lst_tel_id = 1, lst_time = ''0.001'', lst_params = () \<rparr>,
      \<lparr> obs_id_lst = 3265, event_id_lst = 2, lst_tel_id = 1, lst_time = ''0.002'', lst_params = () \<rparr>] [1000000, 2000000]
       [\<lparr> obs_id_magic = 5093711, event_id_magic = 1, magic_tel_id = 2,
         time_sec = 0, time_nanosec = 5000000, magic_params = () \<rparr>,
      \<lparr> obs_id_magic = 5093711, event_id_magic = 1, magic_tel_id = 3,
         time_sec = 0, time_nanosec = 1500000, magic_params = () \<rparr>] (time_offsets_of (-7000) (-6000)) 300
       (np_unique (map magic_tel_id
          [\<lparr> obs_id_magic = 5093711, event_id_magic = 1, magic_tel_id = 2,
         time_sec = 0, time_nanosec = 5000000, magic_params = () \<rparr>,
      \<lparr> obs_id_magic = 5093711, event_id_magic = 1, magic_tel_id = 3,
         time_sec = 0, time_nanosec = 1500000, magic_params = () \<rparr>])) empty_tables = Inr empty_tables
   \<and> event_data (empty_tables :: unit tables) = []
   \<and> event_coincidence [\<lparr> obs_id_lst = 3265, event_id_lst = 1, lst_tel_id = 1, lst_time = ''0.001'', lst_params = () \<rparr>,
      \<lparr> obs_id_lst = 3265, event_id_lst = 2, lst_tel_id = 1, lst_time = ''0.002'', lst_params = () \<rparr>]
        [\<lparr> obs_id_magic = 5093711, event_id_magic = 1, magic_tel_id = 2,
         time_sec = 0, time_nanosec = 5000000, magic_params = () \<rparr>,
      \<lparr> obs_id_magic = 5093711, event_id_magic = 1, magic_tel_id = 3,
         time_sec = 0, time_nanosec = 1500000, magic_params = () \<rparr>] 300 (-7000) (-6000) = Inr (Exited 0)"
proof -
  let ?L = "[\<lparr> obs_id_lst = 3265, event_id_lst = 1, lst_tel_id = 1, lst_time = ''0.001'', lst_params = () \<rparr>,
      \<lparr> obs_id_lst = 3265, event_id_lst = 2, lst_tel_id = 1, lst_time = ''0.002'', lst_params = () \<rparr>]"
  let ?M = "[\<lparr> obs_id_magic = 5093711, event_id_magic = 1, magic_tel_id = 2,
         time_sec = 0, time_nanosec = 5000000, magic_params = () \<rparr>,
      \<lparr> obs_id_magic = 5093711, event_id_magic = 1, magic_tel_id = 3,
         time_sec = 0, time_nanosec = 1500000, magic_params = () \<rparr>]"
  have s: "sequence (map (\<lambda>l. timestamp_lst (lst_time l)) ?L) = Inr [1000000, 2000000]"
    by code_simp
  have l: "tel_loop ?L [1000000, 2000000] ?M (time_offsets_of (-7000) (-6000)) 300
       (np_unique (map magic_tel_id ?M)) empty_tables = Inr empty_tables"
    by code_simp
  have e: "event_data (empty_tables :: unit tables) = []"
    by (simp add: empty_tables_def)
  have m2: "sequence (map (\<lambda>m. timestamp_magic (time_sec m) (time_nanosec m))
              (filter (\<lambda>m. magic_tel_id m = 2) ?M)) = Inr [5000000]"
    by code_simp
  have m3: "sequence (map (\<lambda>m. timestamp_magic (time_sec m) (time_nanosec m))
              (filter (\<lambda>m. magic_tel_id m = 3) ?M)) = Inr [1500000]"
    by code_simp
  have c2: "check_coincidence [1000000, 2000000] (time_offsets_of (-7000) (-6000)) 300 [5000000]
              = Inr No_events"
    by code_simp
  have c3: "check_coincidence [1000000, 2000000] (time_offsets_of (-7000) (-6000)) 300 [1500000]
              = Inr No_coincidence"
    by code_simp
  have h: "\<forall>tid \<in> set (map magic_tel_id ?M).
              TEL_NAMES tid \<noteq> None
              \<and> (\<exists>ts. sequence (map (\<lambda>m. timestamp_magic (time_sec m) (time_nanosec m))
                          (filter (\<lambda>m. magic_tel_id m = tid) ?M)) = Inr ts
                    \<and> (check_coincidence [1000000, 2000000] (time_offsets_of (-7000) (-6000)) 300 ts
                          = Inr No_events
                        \<or> check_coincidence [1000000, 2000000] (time_offsets_of (-7000) (-6000)) 300 ts
                          = Inr No_coincidence))"
    using m2 m3 c2 c3 by (simp add: TEL_NAMES_def)
  note t = no_coincidence_exits [OF s, of ?M "-7000" "-6000" 300]
  from t [THEN conjunct1, THEN spec, THEN mp, OF conjI [OF l e]] t [THEN conjunct2, THEN mp, OF h] l e
  show ?thesis by simp
qed

section \<open>The merged table\<close>














text \<open>
  One LST-1 event coincident with MAGIC-I and with MAGIC-II of one stereo event: the
  merged table has the LST-1 row once and one row for each MAGIC telescope.
\<close>

lemma both_telescopes_once:
  "event_coincidence
     [\<lparr> obs_id_lst = 3265, event_id_lst = 1, lst_tel_id = 1, lst_time = ''0.001'', lst_params = () \<rparr>]
     [\<lparr> obs_id_magic = 5093711, event_id_magic = 7, magic_tel_id = 2,
         time_sec = 0, time_nanosec = 993500, magic_params = () \<rparr>,
      \<lparr> obs_id_magic = 5093711, event_id_magic = 7, magic_tel_id = 3,
         time_sec = 0, time_nanosec = 993600, magic_params = () \<rparr>]
     300 (-7000) (-6000)
   = Inr (Saved
       \<lparr> events_parameters =
          [\<lparr> obs_id = 3265, event_id = 1, tel_id = 1,
              out_obs_id_magic = 5093711, out_event_id_magic = 7, out_ids_lst = Some (3265, 1),
              out_timestamp = Time_lst ''0.001'', out_params = () \<rparr>,
           \<lparr> obs_id = 3265, event_id = 1, tel_id = 2,
              out_obs_id_magic = 5093711, out_event_id_magic = 7, out_ids_lst = Some (3265, 1),
              out_timestamp = Time_magic 993500, out_params = () \<rparr>,
           \<lparr> obs_id = 3265, event_id = 1, tel_id = 3,
              out_obs_id_magic = 5093711, out_event_id_magic = 7, out_ids_lst = Some (3265, 1),
              out_timestamp = Time_magic 993600, out_params = () \<rparr>],
         coincidence_feature =
           [\<lparr> coincidence_id = 12, feature_window_half_width = 300,
               feature_average_offset = - 6500, feature_n_coincidence = 1,
               feature_n_events_magic = 1 \<rparr>,
            \<lparr> coincidence_id = 13, feature_window_half_width = 300,
               feature_average_offset = - 6400, feature_n_coincidence = 1,
               feature_n_events_magic = 1 \<rparr>],
         coincidence_profile =
           [(12, [0, 0, 1, 1, 1, 1, 1, 1, 1, 0]), (13, [0, 0, 0, 1, 1, 1, 1, 1, 1, 1])] \<rparr>)"
  by code_simp

section \<open>The timestamps\<close>

lemma is_digit_cases:
  assumes "is_digit c"
  shows "\<not> is_space c" "c \<noteq> CHR ''_''" "lower c = c" "c \<noteq> CHR ''.''" "c \<noteq> CHR ''e''"
    "c \<noteq> CHR ''-''" "c \<noteq> CHR ''+''" "c \<noteq> CHR ''i''" "c \<noteq> CHR ''n''" "c \<noteq> CHR ''s''"
    "0 \<le> digit_val c" "digit_val c \<le> 9"
  using assms by (auto simp: is_digit_def is_space_def lower_def digit_val_def)

lemma dot_facts:
  "\<not> is_space CHR ''.''" "lower CHR ''.'' = CHR ''.''"
  by (simp_all add: is_space_def lower_def)

lemma digits_val_snoc: "digits_val (ds @ [c]) = 10 * digits_val ds + digit_val c"
  by (simp add: digits_val_def)

lemma digits_val_append:
  "digits_val (xs @ ys) = digits_val xs * 10 ^ length ys + digits_val ys"
proof (induction ys rule: rev_induct)
  case Nil
  show ?case by (simp add: digits_val_def)
next
  case (snoc y ys)
  have "digits_val (xs @ ys @ [y]) = 10 * digits_val (xs @ ys) + digit_val y"
    using digits_val_snoc[of "xs @ ys" y] by simp
  then show ?case
    using snoc by (simp add: digits_val_snoc algebra_simps)
qed

lemma digits_val_bounds:
  assumes "list_all is_digit ds"
  shows "0 \<le> digits_val ds \<and> digits_val ds < 10 ^ length ds"
  using assms
proof (induction ds rule: rev_induct)
  case Nil
  show ?case by (simp add: digits_val_def)
next
  case (snoc d ds)
  then have "0 \<le> digits_val ds" "digits_val ds + 1 \<le> 10 ^ length ds" "is_digit d" by simp_all
  moreover from \<open>is_digit d\<close> have "0 \<le> digit_val d" "digit_val d \<le> 9"
    by (rule is_digit_cases)+
  moreover have "10 * (digits_val ds + 1) \<le> 10 * 10 ^ length ds"
    using \<open>digits_val ds + 1 \<le> 10 ^ length ds\<close> by simp
  ultimately show ?case
    by (simp add: digits_val_snoc)
qed


lemma clean_decimal_string:
  assumes "list_all is_digit ip" "list_all is_digit fp" "ip \<noteq> []"
  shows "clean (ip @ ''.'' @ fp) = ip @ ''.'' @ fp"
proof -
  let ?s = "ip @ ''.'' @ fp"
  have chars: "\<And>c. c \<in> set ?s \<Longrightarrow> \<not> is_space c \<and> c \<noteq> CHR ''_'' \<and> lower c = c"
    using assms(1,2) is_digit_cases(1,2,3) dot_facts by (auto simp: list_all_iff)
  have ne: "?s \<noteq> []" by simp
  have hd_in: "hd ?s \<in> set ?s"
    using ne by (rule hd_in_set)
  have "last ?s \<in> set ?s"
    using ne by (rule last_in_set)
  then have hd_rev: "hd (rev ?s) \<in> set ?s"
    using ne by (simp only: hd_rev)
  have 1: "dropWhile is_space ?s = ?s"
    using chars[OF hd_in] by (cases ?s) simp_all
  have 2: "dropWhile is_space (rev ?s) = rev ?s"
    using chars[OF hd_rev] by (cases "rev ?s") simp_all
  have 3: "filter (\<lambda>c. c \<noteq> CHR ''_'') ?s = ?s"
    using chars by (simp only: filter_id_conv) blast
  have 4: "map lower ?s = ?s"
    using chars by (simp only: map_idI)
  show ?thesis
    unfolding clean_def 1 2 rev_rev_ident 3 4 ..
qed

lemma Decimal_decimal_string:
  assumes "list_all is_digit ip" "list_all is_digit fp" "ip \<noteq> []"
  shows "Decimal (ip @ ''.'' @ fp) = Inr (Finite False (digits_val (ip @ fp)) (- int (length fp)))"
proof -
  let ?s = "ip @ ''.'' @ fp"
  from assms(3) obtain d ds where ip: "ip = d # ds" by (cases ip) auto
  with assms(1) have d: "is_digit d" by simp
  note dn = is_digit_cases[OF d]
  have sgn: "split_sign ?s = (False, ?s)"
    using dn(6,7) by (simp add: split_sign_def ip)
  have notspecial: "?s \<noteq> ''inf''" "?s \<noteq> ''infinity''" "take 3 ?s \<noteq> ''nan''" "take 4 ?s \<noteq> ''snan''"
    using dn(8,9,10) by (simp_all add: ip)
  have noe: "\<And>c. c \<in> set ?s \<Longrightarrow> c \<noteq> CHR ''e''"
    using assms(1,2) is_digit_cases(5) by (auto simp: list_all_iff)
  have mant: "takeWhile (\<lambda>c. c \<noteq> CHR ''e'') ?s = ?s"
    using noe by (simp only: takeWhile_eq_all_conv) blast
  have expp: "dropWhile (\<lambda>c. c \<noteq> CHR ''e'') ?s = []"
    using noe by (simp only: dropWhile_eq_Nil_conv) blast
  have nodot: "\<And>c. c \<in> set ip \<Longrightarrow> c \<noteq> CHR ''.''"
    using assms(1) is_digit_cases(4) by (auto simp: list_all_iff)
  have intp: "takeWhile (\<lambda>c. c \<noteq> CHR ''.'') ?s = ip"
    using nodot by (simp add: takeWhile_append2)
  have fracp: "drop 1 (dropWhile (\<lambda>c. c \<noteq> CHR ''.'') ?s) = fp"
    using nodot by (simp add: dropWhile_append2)
  have alld: "list_all is_digit (ip @ fp)" "ip @ fp \<noteq> []"
    using assms by simp_all
  show ?thesis
    unfolding Decimal_def clean_decimal_string[OF assms] sgn
    using notspecial alld
    by (simp only: Let_def prod.case mant expp intp fracp if_False if_True simp_thms option.case)
       simp
qed


lemma timestamp_lst_decimal_string:
  assumes "list_all is_digit ip" "list_all is_digit fp" "ip \<noteq> []"
    and "length fp \<le> 9" and "digits_val ip < 9223372036"
  shows "timestamp_lst (ip @ ''.'' @ fp)
           = Inr (digits_val ip * 10 ^ 9 + digits_val fp * 10 ^ (9 - length fp))"
proof -
  define n where "n = length fp"
  define c where "c = digits_val (ip @ fp)"
  note bi = digits_val_bounds[OF assms(1)] and bf = digits_val_bounds[OF assms(2)]
  have c: "c = digits_val ip * 10 ^ n + digits_val fp"
    unfolding c_def n_def by (rule digits_val_append)
  have p9: "(10::int) ^ 9 = 10 ^ n * 10 ^ (9 - n)"
    using assms(4) unfolding n_def by (simp flip: power_add)
  have pn: "(0::int) < 10 ^ n" "(0::int) < 10 ^ (9 - n)" by simp_all
  have v: "c * 10 ^ (9 - n) = digits_val ip * 10 ^ 9 + digits_val fp * 10 ^ (9 - n)"
    unfolding c p9 by (simp add: algebra_simps)
  have f9: "digits_val fp * 10 ^ (9 - n) < 10 ^ 9"
    unfolding p9 using bf pn unfolding n_def[symmetric] by simp
  have i9: "digits_val ip * 10 ^ 9 \<le> 9223372035 * 10 ^ 9"
    using assms(5) by simp
  have vlo: "0 \<le> c * 10 ^ (9 - n)"
    unfolding v using bi bf by simp
  have vhi: "c * 10 ^ (9 - n) < 2 ^ 63"
    unfolding v using f9 i9 by simp
  have "c * 10 ^ (9 - n) < 10 ^ 28" using vhi by simp
  moreover have "c \<le> c * 10 ^ (9 - n)"
    using vlo pn(2) by (metis c bi bf mult.right_neutral mult_left_mono add_nonneg_nonneg
        mult_nonneg_nonneg one_le_power one_le_numeral zero_le_power zero_le_numeral)
  ultimately have cprec: "c < 10 ^ prec" unfolding prec_def by simp
  have mul: "dec_mul (Finite False c (- int n)) SEC2NSEC = Inr (Finite False c (9 - int n))"
    using cprec by (simp add: SEC2NSEC_def dec_fix_def)
  have e: "0 \<le> 9 - int n" "nat (9 - int n) = 9 - n"
    using assms(4) unfolding n_def by simp_all
  have conv: "to_int64 (Finite False c (9 - int n)) = Inr (c * 10 ^ (9 - n))"
    using vlo vhi e by (simp add: to_int64_def signed_def)
  show ?thesis
    unfolding timestamp_lst_def Decimal_decimal_string[OF assms(1,2,3)]
    using mul conv v by (simp add: c_def n_def)
qed

lemma decimal_string_scaled:
  assumes "length fp \<le> 9"
  shows "(of_int (digits_val ip) + of_int (digits_val fp) / 10 ^ length fp) * 10 ^ 9
           = (of_int (digits_val ip * 10 ^ 9 + digits_val fp * 10 ^ (9 - length fp)) :: rat)"
proof -
  have p: "(10::rat) ^ 9 = 10 ^ length fp * 10 ^ (9 - length fp)"
    using assms by (simp flip: power_add)
  have "(of_int (digits_val ip) + of_int (digits_val fp) / 10 ^ length fp) * (10::rat) ^ 9
          = of_int (digits_val ip) * 10 ^ 9
            + of_int (digits_val fp) / 10 ^ length fp * (10 ^ length fp * 10 ^ (9 - length fp))"
    unfolding p[symmetric] by (simp only: distrib_right)
  also have "\<dots> = of_int (digits_val ip) * 10 ^ 9 + of_int (digits_val fp) * 10 ^ (9 - length fp)"
    by simp
  finally show ?thesis by simp
qed

lemma timestamp_magic_exact:
  assumes "- (2 ^ 63) \<le> sec" "sec < 2 ^ 63"
    and "- (2 ^ 63) \<le> sec * 10 ^ 9 + nsec" "sec * 10 ^ 9 + nsec < 2 ^ 63"
  shows "timestamp_magic sec nsec = Inr (sec * 10 ^ 9 + nsec)"
proof -
  define v where "v = sec * 10 ^ 9 + nsec"
  have s: "\<bar>sec\<bar> < 10 ^ prec" using assms(1,2) unfolding prec_def by simp
  have mul: "dec_mul (Decimal_of_int sec) SEC2NSEC = Inr (Finite (sec < 0) \<bar>sec\<bar> 9)"
    using s by (simp add: Decimal_of_int_def SEC2NSEC_def dec_fix_def)
  have sv: "signed (sec < 0) \<bar>sec\<bar> * 10 ^ nat (9 - min 9 0)
              + signed (nsec < 0) \<bar>nsec\<bar> * 10 ^ nat (0 - min 9 0) = v"
    unfolding v_def by (simp add: signed_def)
  have vp: "\<bar>v\<bar> < 10 ^ prec" using assms(3,4) unfolding prec_def v_def by simp
  have add: "dec_add (Finite (sec < 0) \<bar>sec\<bar> 9) (Decimal_of_int nsec)
               = Inr (Finite (if v = 0 then sec < 0 \<and> nsec < 0 else v < 0) \<bar>v\<bar> 0)"
    unfolding Decimal_of_int_def dec_add.simps Let_def sv using vp
    by (simp add: dec_fix_def)
  have conv: "to_int64 (Finite (if v = 0 then sec < 0 \<and> nsec < 0 else v < 0) \<bar>v\<bar> 0) = Inr v"
    using assms(3,4) unfolding v_def[symmetric]
    by (simp add: to_int64_def signed_def)
  show ?thesis
    unfolding timestamp_magic_def mul using add conv by (simp add: v_def)
qed

text \<open>
  C2. An LST-1 timestamp written as a decimal string, digits, a point and at most seven
  digits, below 9223372036 s so that its nanoseconds fit 64 bits: the script's
  \<^verbatim>\<open>Decimal(s) * SEC2NSEC\<close> as an integer is the value of the string times
  \<open>10^9\<close>, rounded, and the rounding changes nothing, the product being an integer.
  The conversion goes through decimal coefficients and exponents only. A MAGIC timestamp
  from the integer seconds and nanoseconds, both in the 64-bit range as their sum in
  nanoseconds: the script's \<^verbatim>\<open>seconds * SEC2NSEC + nseconds\<close> as an integer is
  \<open>seconds * 10^9 + nanoseconds\<close>; the 28 digits of the decimal context lose nothing.
\<close>

theorem timestamps_exact:
  assumes "list_all is_digit ip" "ip \<noteq> []" "list_all is_digit fp" "length fp \<le> 7"
    and "digits_val ip < 9223372036"
    and "- (2 ^ 63) \<le> sec" "sec < 2 ^ 63"
    and "- (2 ^ 63) \<le> sec * 10 ^ 9 + nsec" "sec * 10 ^ 9 + nsec < 2 ^ 63"
  shows "timestamp_lst (ip @ ''.'' @ fp)
           = Inr (np_round ((of_int (digits_val ip) + of_int (digits_val fp) / 10 ^ length fp) * 10 ^ 9))
       \<and> of_int (np_round ((of_int (digits_val ip) + of_int (digits_val fp) / 10 ^ length fp) * 10 ^ 9))
           = (of_int (digits_val ip) + of_int (digits_val fp) / 10 ^ length fp) * (10 :: rat) ^ 9
       \<and> timestamp_magic sec nsec = Inr (sec * 10 ^ 9 + nsec)"
proof -
  have l: "length fp \<le> 9" using assms(4) by simp
  note sc = decimal_string_scaled[OF l, of ip]
  show ?thesis
    unfolding sc np_round_of_int
    using timestamp_lst_decimal_string[OF assms(1,3,2) l assms(5)]
      timestamp_magic_exact[OF assms(6,7,8,9)]
    by simp
qed

theorem timestamps_exact_witness:
  "timestamp_lst ''1620000000.1234567'' = Inr 1620000000123456700
   \<and> timestamp_magic 1620000000 123456700 = Inr 1620000000123456700"
proof -
  have d: "list_all is_digit ''1620000000''" "list_all is_digit ''1234567''"
    by (simp_all add: is_digit_def)
  have v: "digits_val ''1620000000'' = 1620000000" "digits_val ''1234567'' = 1234567"
    by (simp_all add: digits_val_def digit_val_def)
  have r: "np_round ((1620000000 + 1234567 / 10 ^ 7) * 10 ^ 9) = 1620000000123456700"
    by (simp add: np_round_def)
  from timestamps_exact [of "''1620000000''" "''1234567''" 1620000000 123456700] d v r
  show ?thesis by simp
qed

end
